theory Spec2Isabelle
  imports Main
begin

section \<open>The client auth state of \<^verbatim>\<open>servers/nextjs/contexts/AuthContext.tsx\<close>\<close>

text \<open>
  The browser side of the EIAM integration is a React provider holding one state cell
  (\<^verbatim>\<open>useState<AuthState>\<close>), four operations on it (\<^verbatim>\<open>checkAuth\<close>, \<^verbatim>\<open>login\<close>,
  \<^verbatim>\<open>logout\<close>, \<^verbatim>\<open>refreshToken\<close>) and, in \<^verbatim>\<open>components/auth/AuthComponents.tsx\<close>, a
  guard component that reads the state. The embedding follows the declared TypeScript
  interfaces. Everything outside the two files (the network, the browser location, the
  React lifecycle) is explicit: a call to \<^verbatim>\<open>fetch\<close> is logged and its outcome is an
  argument of the continuation that runs after the \<^verbatim>\<open>await\<close>.
\<close>

subsection \<open>Data\<close>

text \<open>\<^verbatim>\<open>interface EIAMUser\<close>: an optional field (\<^verbatim>\<open>name?: string\<close>) is an \<open>option\<close>.\<close>

record EIAMUser =
  sub :: string
  name :: "string option"
  email :: "string option"
  given_name :: "string option"
  family_name :: "string option"
  roles :: "string list"
  department :: "string option"
  organization :: "string option"

text \<open>
  The \<^verbatim>\<open>token\<close> field is declared \<^verbatim>\<open>string | null\<close>, but \<^verbatim>\<open>refreshToken\<close> writes
  \<^verbatim>\<open>data.token\<close> into it, read from an untyped response body: when the body has no such
  field the value is \<^verbatim>\<open>undefined\<close>, which is not \<^verbatim>\<open>null\<close>. The three cases are kept apart.
\<close>

datatype js_token = Undefined | Null | Str string

text \<open>
  \<^verbatim>\<open>interface AuthState\<close>. \<^verbatim>\<open>user: EIAMUser | null\<close> and \<^verbatim>\<open>error: string | null\<close> are
  options with \<open>None\<close> for \<^verbatim>\<open>null\<close>: the code only ever stores \<^verbatim>\<open>null\<close>, a string literal
  or a truthy user object in them.
\<close>

record AuthState =
  isAuthenticated :: bool
  user :: "EIAMUser option"
  token :: js_token
  loading :: bool
  error :: "string option"

text \<open>
  The outcome of \<^verbatim>\<open>await fetch(...)\<close> followed by \<^verbatim>\<open>await response.json()\<close>:
  \<^item> \<open>Rejected\<close>: the promise of \<^verbatim>\<open>fetch\<close> rejects (network failure);
  \<^item> \<open>Response ok None\<close>: a response arrived with \<^verbatim>\<open>response.ok = ok\<close>, and
    \<^verbatim>\<open>response.json()\<close> rejects or reading a field of its result throws (a body that is
    not JSON, the JSON value \<^verbatim>\<open>null\<close>);
  \<^item> \<open>Response ok (Some data)\<close>: the body parsed to \<open>data\<close>.
  \<^verbatim>\<open>fetch\<close> does not reject on an HTTP error status; it resolves with \<^verbatim>\<open>ok = false\<close>.
\<close>

datatype 'b fetch_result = Rejected | Response bool "'b option"

text \<open>
  Modelled from the spec: the body types of the two JSON endpoints, which the source
  reads as \<^verbatim>\<open>any\<close>. The server that produces them is not among the sources; the spec gives
  \<^verbatim>\<open>GET /auth/check -> {authenticated: bool, user: Principal | null}\<close> and
  \<^verbatim>\<open>GET /auth/token -> {success: bool, user?: Principal}\<close>. The fields are those the code
  reads: \<^verbatim>\<open>data.authenticated\<close>, \<^verbatim>\<open>data.success\<close>, \<^verbatim>\<open>data.user\<close> and \<^verbatim>\<open>data.token\<close>. An absent
  or \<^verbatim>\<open>null\<close> user is \<open>None\<close> (both are falsy and never stored); a user object is truthy.
\<close>

record check_data =
  authenticated :: bool
  check_user :: "EIAMUser option"

record token_data =
  success :: bool
  token_user :: "EIAMUser option"
  token_token :: js_token

text \<open>A call of \<^verbatim>\<open>fetch(url, {method, credentials})\<close>; the method defaults to GET.\<close>

datatype http_method = GET | POST

record request =
  url :: string
  http_method :: http_method
  credentials :: string

text \<open>
  What the provider's closures can touch: the state cell, \<^verbatim>\<open>window.location.href\<close>, and
  the network (the log of \<^verbatim>\<open>fetch\<close> calls issued so far). \<open>mounted\<close> is React's lifecycle
  flag of the provider component. No code of the provider reads it; React's setter does
  (see \<open>react_setAuthState\<close> below).
\<close>

record client =
  authState :: AuthState
  location_href :: string
  fetched :: "request list"
  mounted :: bool

subsection \<open>The hook \<^verbatim>\<open>useAuth\<close>\<close>

datatype js_error = Error string

text \<open>
  \<^verbatim>\<open>createContext<AuthContextType | undefined>(undefined)\<close>: outside a provider the context
  value is \<^verbatim>\<open>undefined\<close>, here \<open>None\<close>.
\<close>

definition useAuth :: "'ctx option \<Rightarrow> js_error + 'ctx" where
  "useAuth context =
     (case context of
        None \<Rightarrow> Inl (Error ''useAuth must be used within an AuthProvider'')
      | Some ctx \<Rightarrow> Inr ctx)"

subsection \<open>The provider's operations\<close>

text \<open>The argument of \<^verbatim>\<open>useState\<close>.\<close>

definition initial_authState :: AuthState where
  "initial_authState =
     \<lparr>isAuthenticated = False, user = None, token = Null, loading = True, error = None\<rparr>"

text \<open>
  The setter of the state cell as it acts while the provider is mounted, called with an
  updater function (\<^verbatim>\<open>prev => ...\<close>) or, for an object argument, with the constant
  updater. The operations below are the provider's closures in a mounted provider.
\<close>

definition setAuthState :: "(AuthState \<Rightarrow> AuthState) \<Rightarrow> client \<Rightarrow> client" where
  "setAuthState f c = c\<lparr>authState := f (authState c)\<rparr>"

definition fetch :: "request \<Rightarrow> client \<Rightarrow> client" where
  "fetch req c = c\<lparr>fetched := fetched c @ [req]\<rparr>"

definition set_location_href :: "string \<Rightarrow> client \<Rightarrow> client" where
  "set_location_href u c = c\<lparr>location_href := u\<rparr>"

text \<open>
  \<^verbatim>\<open>checkAuth\<close> up to its first \<^verbatim>\<open>await\<close>, and its continuation. The test
  \<^verbatim>\<open>data.authenticated && data.user\<close> is truthiness; \<^verbatim>\<open>response.ok\<close> is not looked at.
\<close>

definition checkAuth_begin :: "client \<Rightarrow> client" where
  "checkAuth_begin c =
     fetch \<lparr>url = ''/api/v1/auth/check'', http_method = GET, credentials = ''include''\<rparr>
       (setAuthState (\<lambda>prev. prev\<lparr>loading := True, error := None\<rparr>) c)"

definition checkAuth_settle :: "check_data fetch_result \<Rightarrow> client \<Rightarrow> client" where
  "checkAuth_settle r c =
     (case r of
        Response ok (Some data) \<Rightarrow>
          if authenticated data \<and> check_user data \<noteq> None
          then setAuthState (\<lambda>_. \<lparr>isAuthenticated = True, user = check_user data,
                 token = Null, loading = False, error = None\<rparr>) c
          else setAuthState (\<lambda>_. \<lparr>isAuthenticated = False, user = None,
                 token = Null, loading = False, error = None\<rparr>) c
      | _ \<Rightarrow>
          setAuthState (\<lambda>_. \<lparr>isAuthenticated = False, user = None, token = Null,
            loading = False, error = Some ''Authentication check failed''\<rparr>) c)"

definition checkAuth :: "check_data fetch_result \<Rightarrow> client \<Rightarrow> client" where
  "checkAuth r c = checkAuth_settle r (checkAuth_begin c)"

text \<open>
  \<^verbatim>\<open>URLSearchParams.toString()\<close> on the value of the single parameter: the
  \<^verbatim>\<open>application/x-www-form-urlencoded\<close> serialiser of the URL standard, on the bytes of
  the string. ASCII letters, digits and \<^verbatim>\<open>* - . _\<close> stay, a space becomes \<^verbatim>\<open>+\<close>, any other
  byte becomes \<^verbatim>\<open>%XX\<close> in upper-case hexadecimal. The parameter name \<^verbatim>\<open>redirect_url\<close> has
  only characters that stay.
\<close>

definition hex_digit :: "nat \<Rightarrow> char" where
  "hex_digit n = ''0123456789ABCDEF'' ! (n mod 16)"

definition urlencode_byte :: "char \<Rightarrow> string" where
  "urlencode_byte ch =
     (let n = (of_char ch :: nat) in
      if (48 \<le> n \<and> n \<le> 57) \<or> (65 \<le> n \<and> n \<le> 90) \<or> (97 \<le> n \<and> n \<le> 122)
         \<or> ch \<in> set ''*-._''
      then [ch]
      else if ch = CHR '' '' then ''+''
      else [CHR ''%'', hex_digit (n div 16), hex_digit n])"

definition form_urlencode :: "string \<Rightarrow> string" where
  "form_urlencode s = concat (map urlencode_byte s)"

text \<open>
  \<^verbatim>\<open>login(redirectUrl?: string)\<close>: \<open>None\<close> is a call without argument. \<^verbatim>\<open>if (redirectUrl)\<close>
  is truthiness, so the empty string sets no parameter. \<open>params\<close> is the serialised
  \<^verbatim>\<open>URLSearchParams\<close>.
\<close>

definition login :: "string option \<Rightarrow> client \<Rightarrow> client" where
  "login redirectUrl c =
     (let params =
            (case redirectUrl of
               None \<Rightarrow> []
             | Some u \<Rightarrow> if u \<noteq> [] then ''redirect_url='' @ form_urlencode u else []);
          loginUrl = ''/api/v1/auth/login'' @ (if params \<noteq> [] then ''?'' @ params else [])
      in set_location_href loginUrl c)"

text \<open>\<^verbatim>\<open>logout\<close>: the \<^verbatim>\<open>try\<close> branch runs when the fetch resolves (with any status), the
  \<^verbatim>\<open>catch\<close> branch when it rejects. The body of the response is never read.\<close>

definition logout_begin :: "client \<Rightarrow> client" where
  "logout_begin c =
     fetch \<lparr>url = ''/api/v1/auth/logout'', http_method = POST, credentials = ''include''\<rparr> c"

definition logout_settle :: "'b fetch_result \<Rightarrow> client \<Rightarrow> client" where
  "logout_settle r c =
     (case r of
        Response ok body \<Rightarrow>
          set_location_href ''/''
            (setAuthState (\<lambda>_. \<lparr>isAuthenticated = False, user = None, token = Null,
               loading = False, error = None\<rparr>) c)
      | Rejected \<Rightarrow>
          set_location_href ''/''
            (setAuthState (\<lambda>_. \<lparr>isAuthenticated = False, user = None, token = Null,
               loading = False, error = None\<rparr>) c))"

definition logout :: "'b fetch_result \<Rightarrow> client \<Rightarrow> client" where
  "logout r c = logout_settle r (logout_begin c)"

text \<open>
  \<^verbatim>\<open>refreshToken\<close>: a response that is not OK throws inside the \<^verbatim>\<open>try\<close> and lands in the
  \<^verbatim>\<open>catch\<close>, like a rejected fetch and a body that does not parse.
\<close>

definition refreshToken_begin :: "client \<Rightarrow> client" where
  "refreshToken_begin c =
     fetch \<lparr>url = ''/api/v1/auth/token'', http_method = GET, credentials = ''include''\<rparr> c"

definition refreshToken_settle :: "token_data fetch_result \<Rightarrow> client \<Rightarrow> client" where
  "refreshToken_settle r c =
     (case r of
        Response ok body \<Rightarrow>
          if \<not> ok
          then setAuthState (\<lambda>_. \<lparr>isAuthenticated = False, user = None, token = Null,
                 loading = False, error = Some ''Session expired''\<rparr>) c
          else (case body of
                  Some data \<Rightarrow>
                    if success data \<and> token_user data \<noteq> None
                    then setAuthState (\<lambda>prev. prev\<lparr>user := token_user data,
                           token := token_token data, error := None\<rparr>) c
                    else setAuthState (\<lambda>_. \<lparr>isAuthenticated = False, user = None,
                           token = Null, loading = False, error = Some ''Session expired''\<rparr>) c
                | None \<Rightarrow>
                    setAuthState (\<lambda>_. \<lparr>isAuthenticated = False, user = None, token = Null,
                      loading = False, error = Some ''Session expired''\<rparr>) c)
      | Rejected \<Rightarrow>
          setAuthState (\<lambda>_. \<lparr>isAuthenticated = False, user = None, token = Null,
            loading = False, error = Some ''Session expired''\<rparr>) c)"

definition refreshToken :: "token_data fetch_result \<Rightarrow> client \<Rightarrow> client" where
  "refreshToken r c = refreshToken_settle r (refreshToken_begin c)"

text \<open>
  Mounting \<^verbatim>\<open>AuthProvider\<close> at the page \<open>href\<close>: the state cell gets its initial value and
  the effect with the empty dependency list runs once, calling \<^verbatim>\<open>checkAuth()\<close>. The effect
  returns no cleanup function, so unmounting runs no code of the provider.
\<close>

definition AuthProvider_mount :: "string \<Rightarrow> client" where
  "AuthProvider_mount href =
     checkAuth_begin
       \<lparr>authState = initial_authState, location_href = href, fetched = [], mounted = True\<rparr>"


subsection \<open>The lifecycle of the state cell\<close>

text \<open>
  The setter that \<^verbatim>\<open>useState\<close> returns, over the whole life of the component. It is
  React's, not the repository's: while the component is mounted a call updates the cell;
  once the component has unmounted the cell is gone and a call is dropped without effect.
\<close>

definition react_setAuthState :: "(AuthState \<Rightarrow> AuthState) \<Rightarrow> client \<Rightarrow> client" where
  "react_setAuthState f c = (if mounted c then setAuthState f c else c)"

text \<open>
  The continuations of \<^verbatim>\<open>checkAuth\<close> and \<^verbatim>\<open>refreshToken\<close> once more, branch for branch as
  above, with every call of \<^verbatim>\<open>setAuthState\<close> going through React's setter: this is what
  runs when a pending call resolves, whether or not the provider is still mounted. The
  fetch is not aborted on unmount, so the continuation does run.
\<close>

definition checkAuth_settle_react :: "check_data fetch_result \<Rightarrow> client \<Rightarrow> client" where
  "checkAuth_settle_react r c =
     (case r of
        Response ok (Some data) \<Rightarrow>
          if authenticated data \<and> check_user data \<noteq> None
          then react_setAuthState (\<lambda>_. \<lparr>isAuthenticated = True, user = check_user data,
                 token = Null, loading = False, error = None\<rparr>) c
          else react_setAuthState (\<lambda>_. \<lparr>isAuthenticated = False, user = None,
                 token = Null, loading = False, error = None\<rparr>) c
      | _ \<Rightarrow>
          react_setAuthState (\<lambda>_. \<lparr>isAuthenticated = False, user = None, token = Null,
            loading = False, error = Some ''Authentication check failed''\<rparr>) c)"

definition refreshToken_settle_react :: "token_data fetch_result \<Rightarrow> client \<Rightarrow> client" where
  "refreshToken_settle_react r c =
     (case r of
        Response ok body \<Rightarrow>
          if \<not> ok
          then react_setAuthState (\<lambda>_. \<lparr>isAuthenticated = False, user = None, token = Null,
                 loading = False, error = Some ''Session expired''\<rparr>) c
          else (case body of
                  Some data \<Rightarrow>
                    if success data \<and> token_user data \<noteq> None
                    then react_setAuthState (\<lambda>prev. prev\<lparr>user := token_user data,
                           token := token_token data, error := None\<rparr>) c
                    else react_setAuthState (\<lambda>_. \<lparr>isAuthenticated = False, user = None,
                           token = Null, loading = False, error = Some ''Session expired''\<rparr>) c
                | None \<Rightarrow>
                    react_setAuthState (\<lambda>_. \<lparr>isAuthenticated = False, user = None,
                      token = Null, loading = False, error = Some ''Session expired''\<rparr>) c)
      | Rejected \<Rightarrow>
          react_setAuthState (\<lambda>_. \<lparr>isAuthenticated = False, user = None, token = Null,
            loading = False, error = Some ''Session expired''\<rparr>) c)"

subsection \<open>The guard component \<^verbatim>\<open>AuthGuard\<close>\<close>

text \<open>
  \<^verbatim>\<open>interface AuthGuardProps\<close>, over any type \<open>'n\<close> of React nodes. A \<open>fallback\<close> of \<open>None\<close>
  is one that is absent or falsy: \<^verbatim>\<open>fallback || <LoginButton />\<close> replaces both by the
  login button.
\<close>

record 'n AuthGuardProps =
  children :: 'n
  fallback :: "'n option"
  requireRole :: "string option"

text \<open>The five things the component can return.\<close>

datatype 'n element =
    LoadingSpinner
  | Fallback 'n
  | DefaultLoginButton
  | AccessDenied string
  | Children 'n

text \<open>
  The guard reads \<open>isAuthenticated\<close>, \<open>user\<close> and \<open>loading\<close> from the context. The role test
  is \<^verbatim>\<open>requireRole && user && !user.roles.includes(requireRole)\<close>: it is skipped for an
  absent or empty role and for a null user.
\<close>

definition AuthGuard :: "AuthState option \<Rightarrow> 'n AuthGuardProps \<Rightarrow> js_error + 'n element" where
  "AuthGuard context props =
     (case useAuth context of
        Inl e \<Rightarrow> Inl e
      | Inr st \<Rightarrow>
          Inr (if loading st then LoadingSpinner
               else if \<not> isAuthenticated st
               then (case fallback props of Some f \<Rightarrow> Fallback f | None \<Rightarrow> DefaultLoginButton)
               else (case (requireRole props, user st) of
                       (Some r, Some u) \<Rightarrow>
                         if r \<noteq> [] \<and> \<not> List.member (roles u) r
                         then AccessDenied r
                         else Children (children props)
                     | _ \<Rightarrow> Children (children props))))"

subsection \<open>Traces of the provider\<close>

text \<open>
  What can happen to a mounted provider: a component calls one of the four operations, or
  a pending fetch settles. The asynchronous operations are split at their \<^verbatim>\<open>await\<close>, so a
  trace can interleave them as the event loop may.
\<close>

datatype event =
    CheckAuth_called
  | CheckAuth_resolved "check_data fetch_result"
  | Login_called "string option"
  | Logout_called
  | Logout_resolved "unit fetch_result"
  | RefreshToken_called
  | RefreshToken_resolved "token_data fetch_result"

fun step :: "event \<Rightarrow> client \<Rightarrow> client" where
  "step CheckAuth_called c = checkAuth_begin c"
| "step (CheckAuth_resolved r) c = checkAuth_settle r c"
| "step (Login_called redirectUrl) c = login redirectUrl c"
| "step Logout_called c = logout_begin c"
| "step (Logout_resolved r) c = logout_settle r c"
| "step RefreshToken_called c = refreshToken_begin c"
| "step (RefreshToken_resolved r) c = refreshToken_settle r c"

fun run :: "event list \<Rightarrow> client \<Rightarrow> client" where
  "run [] c = c"
| "run (e # es) c = run es (step e c)"

text \<open>
  The token that an event hands to the client, if any: the \<^verbatim>\<open>token\<close> field of the body of
  a refresh that succeeded. The user object that an event carries, if any.
\<close>

fun stored_token :: "event \<Rightarrow> js_token option" where
  "stored_token (RefreshToken_resolved (Response True (Some data))) =
     (if success data \<and> token_user data \<noteq> None then Some (token_token data) else None)"
| "stored_token _ = None"

fun received_user :: "event \<Rightarrow> EIAMUser option" where
  "received_user (CheckAuth_resolved (Response ok (Some data))) = check_user data"
| "received_user (RefreshToken_resolved (Response ok (Some data))) = token_user data"
| "received_user _ = None"

subsection \<open>The role gate as the specification words it\<close>

text \<open>
  The specification's rule for the guard, as a function of the state and the required
  role only: protected content is shown only if \<open>isAuthenticated\<close> and, when a role is
  required, the roles of the principal include it. Without a principal no role is
  included.
\<close>

definition role_gate_spec :: "AuthState \<Rightarrow> string option \<Rightarrow> bool" where
  "role_gate_spec st required =
     (isAuthenticated st \<and>
      (case required of
         None \<Rightarrow> True
       | Some r \<Rightarrow> (case user st of None \<Rightarrow> False | Some u \<Rightarrow> List.member (roles u) r)))"

subsection \<open>Sample values\<close>

definition anna :: EIAMUser where
  "anna = \<lparr>sub = ''u-1'', name = Some ''Anna Muster'', email = Some ''anna.muster@example.ch'',
     given_name = Some ''Anna'', family_name = Some ''Muster'', roles = [''presenton-user''],
     department = None, organization = None\<rparr>"

definition signed_out :: AuthState where
  "signed_out =
     \<lparr>isAuthenticated = False, user = None, token = Null, loading = False, error = None\<rparr>"

definition signed_in :: "EIAMUser option \<Rightarrow> AuthState" where
  "signed_in u =
     \<lparr>isAuthenticated = True, user = u, token = Null, loading = False, error = None\<rparr>"

definition page :: "AuthState \<Rightarrow> client" where
  "page st = \<lparr>authState = st, location_href = ''/dashboard'', fetched = [], mounted = True\<rparr>"

section \<open>Properties\<close>

subsection \<open>The guard\<close>

lemma step_authenticated_has_user:
  assumes "isAuthenticated (authState c) \<longrightarrow> user (authState c) \<noteq> None"
  shows "isAuthenticated (authState (step e c)) \<longrightarrow> user (authState (step e c)) \<noteq> None"
  using assms
  by (cases e)
     (auto simp add: checkAuth_begin_def checkAuth_settle_def login_def logout_begin_def
        logout_settle_def refreshToken_begin_def refreshToken_settle_def setAuthState_def
        fetch_def set_location_href_def Let_def split: fetch_result.splits option.splits)

lemma run_authenticated_has_user:
  assumes "isAuthenticated (authState c) \<longrightarrow> user (authState c) \<noteq> None"
  shows "isAuthenticated (authState (run es c)) \<longrightarrow> user (authState (run es c)) \<noteq> None"
  using assms
proof (induction es arbitrary: c)
  case Nil
  then show ?case by simp
next
  case (Cons e es)
  from Cons.prems have "isAuthenticated (authState (step e c)) \<longrightarrow>
      user (authState (step e c)) \<noteq> None"
    by (rule step_authenticated_has_user)
  then show ?case using Cons.IH [of "step e c"] by simp
qed

lemma mounted_provider_authenticated_has_user:
  "isAuthenticated (authState (run es (AuthProvider_mount href)))
     \<longrightarrow> user (authState (run es (AuthProvider_mount href))) \<noteq> None"
  by (rule run_authenticated_has_user)
     (simp add: AuthProvider_mount_def checkAuth_begin_def setAuthState_def fetch_def
        initial_authState_def)

text \<open>
  C1, as stated: for every auth state with \<open>loading = false\<close> the guard renders the
  children if and only if \<open>isAuthenticated\<close> holds and, when a role is required, the
  user's roles contain it; in every other case it renders the fallback. The last part
  fails in a state the provider delivers: after the status check has signed in a user
  with the role \<^verbatim>\<open>presenton-user\<close>, a guard that requires \<^verbatim>\<open>presenton-admin\<close> and is given a
  fallback renders neither the children nor the fallback, but the access-denied panel.
\<close>

theorem AuthGuard_access_denied_counterexample:
  "\<not> loading (authState (run
       [CheckAuth_resolved (Response True (Some \<lparr>authenticated = True, check_user = Some anna\<rparr>))]
       (AuthProvider_mount ''/'')))
   \<and> \<not> role_gate_spec (authState (run
       [CheckAuth_resolved (Response True (Some \<lparr>authenticated = True, check_user = Some anna\<rparr>))]
       (AuthProvider_mount ''/''))) (Some ''presenton-admin'')
   \<and> AuthGuard (Some (authState (run
       [CheckAuth_resolved (Response True (Some \<lparr>authenticated = True, check_user = Some anna\<rparr>))]
       (AuthProvider_mount ''/''))))
       \<lparr>children = ''AdminPanel'', fallback = Some ''NoAccess'',
        requireRole = Some ''presenton-admin''\<rparr>
     = Inr (AccessDenied ''presenton-admin'')
   \<and> AuthGuard (Some (authState (run
       [CheckAuth_resolved (Response True (Some \<lparr>authenticated = True, check_user = Some anna\<rparr>))]
       (AuthProvider_mount ''/''))))
       \<lparr>children = ''AdminPanel'', fallback = Some ''NoAccess'',
        requireRole = Some ''presenton-admin''\<rparr>
     \<noteq> Inr (Fallback ''NoAccess'')"
  by (simp add: AuthGuard_def useAuth_def role_gate_spec_def checkAuth_settle_def
      setAuthState_def anna_def List.member_iff)

text \<open>
  C1, amended: for every auth state with \<open>loading = false\<close> that the provider delivers
  (reached from mount through \<^verbatim>\<open>checkAuth\<close>, \<^verbatim>\<open>login\<close>, \<^verbatim>\<open>logout\<close> and \<^verbatim>\<open>refreshToken\<close>),
  the guard renders the children if and only if \<open>isAuthenticated\<close> holds and, when a role
  is required, the user's roles contain that role. A required role is a non-empty string,
  by the code's test \<^verbatim>\<open>requireRole && ...\<close>. When \<open>isAuthenticated\<close> is false the guard
  renders the fallback (the login button if none is given); when the user lacks the
  required role it renders the access-denied panel naming the role, not the fallback.
\<close>

theorem AuthGuard_renders:
  assumes "st = authState (run es (AuthProvider_mount href))" and "\<not> loading st"
  shows "(AuthGuard (Some st) props = Inr (Children (children props))
            \<longleftrightarrow> isAuthenticated st \<and>
                (\<forall>r. requireRole props = Some r \<and> r \<noteq> []
                   \<longrightarrow> (\<exists>u. user st = Some u \<and> List.member (roles u) r)))
         \<and> (\<not> isAuthenticated st \<longrightarrow>
              AuthGuard (Some st) props =
                Inr (case fallback props of Some f \<Rightarrow> Fallback f | None \<Rightarrow> DefaultLoginButton))
         \<and> (\<forall>r. isAuthenticated st \<and> requireRole props = Some r \<and> r \<noteq> []
                 \<and> \<not> (\<exists>u. user st = Some u \<and> List.member (roles u) r)
              \<longrightarrow> AuthGuard (Some st) props = Inr (AccessDenied r))"
proof -
  from assms(1) have "isAuthenticated st \<longrightarrow> user st \<noteq> None"
    using mounted_provider_authenticated_has_user [of es href] by simp
  with assms(2) show ?thesis
    by (auto simp add: AuthGuard_def useAuth_def split: option.splits)
qed

theorem AuthGuard_renders_witness:
  "\<not> loading (authState (run
       [CheckAuth_resolved (Response True (Some \<lparr>authenticated = True, check_user = Some anna\<rparr>))]
       (AuthProvider_mount ''/'')))
   \<and> AuthGuard (Some (authState (run
       [CheckAuth_resolved (Response True (Some \<lparr>authenticated = True, check_user = Some anna\<rparr>))]
       (AuthProvider_mount ''/''))))
       \<lparr>children = ''Slides'', fallback = None, requireRole = Some ''presenton-user''\<rparr>
     = Inr (Children ''Slides'')
   \<and> AuthGuard (Some (authState (run
       [CheckAuth_resolved (Response True (Some \<lparr>authenticated = True, check_user = Some anna\<rparr>))]
       (AuthProvider_mount ''/''))))
       \<lparr>children = ''AdminPanel'', fallback = None, requireRole = Some ''presenton-admin''\<rparr>
     = Inr (AccessDenied ''presenton-admin'')
   \<and> \<not> loading (authState (run [CheckAuth_resolved Rejected] (AuthProvider_mount ''/'')))
   \<and> AuthGuard (Some (authState (run [CheckAuth_resolved Rejected] (AuthProvider_mount ''/''))))
       \<lparr>children = ''Slides'', fallback = Some ''Please sign in'', requireRole = None\<rparr>
     = Inr (Fallback ''Please sign in'')"
  using
    AuthGuard_renders [OF refl, of
      "[CheckAuth_resolved (Response True (Some \<lparr>authenticated = True, check_user = Some anna\<rparr>))]"
      "''/''"
      "\<lparr>children = ''Slides'', fallback = None, requireRole = Some ''presenton-user''\<rparr>"]
    AuthGuard_renders [OF refl, of
      "[CheckAuth_resolved (Response True (Some \<lparr>authenticated = True, check_user = Some anna\<rparr>))]"
      "''/''"
      "\<lparr>children = ''AdminPanel'', fallback = None, requireRole = Some ''presenton-admin''\<rparr>"]
    AuthGuard_renders [OF refl, of "[CheckAuth_resolved Rejected]" "''/''"
      "\<lparr>children = ''Slides'', fallback = Some ''Please sign in'', requireRole = None\<rparr>"]
  by (simp add: checkAuth_settle_def setAuthState_def anna_def List.member_iff)

text \<open>
  C8. For every auth state with \<open>loading = false\<close>, \<open>isAuthenticated = true\<close> and
  \<open>user = null\<close>, the guard renders the protected children, whatever role is required: the
  role check is skipped when the user object is null.
\<close>

theorem AuthGuard_null_user_skips_role_check:
  assumes "\<not> loading st" and "isAuthenticated st" and "user st = None"
  shows "AuthGuard (Some st) props = Inr (Children (children props))"
  using assms by (simp add: AuthGuard_def useAuth_def split: option.splits)

theorem AuthGuard_null_user_skips_role_check_witness:
  "\<not> loading (signed_in None) \<and> isAuthenticated (signed_in None) \<and> user (signed_in None) = None
   \<and> AuthGuard (Some (signed_in None))
       \<lparr>children = ''AdminPanel'', fallback = Some ''Denied'',
        requireRole = Some ''presenton-admin''\<rparr>
     = Inr (Children ''AdminPanel'')"
  using AuthGuard_null_user_skips_role_check [of "signed_in None"
      "\<lparr>children = ''AdminPanel'', fallback = Some ''Denied'',
        requireRole = Some ''presenton-admin''\<rparr>"]
  by (simp add: signed_in_def)

subsection \<open>The hook\<close>

text \<open>
  C10. Calling \<^verbatim>\<open>useAuth\<close> when no provider is present (the context is undefined) always
  throws: the result is the error, never an auth state, partial or default.
\<close>

theorem useAuth_without_provider_throws:
  "useAuth (None :: 'ctx option) = Inl (Error ''useAuth must be used within an AuthProvider'')
   \<and> (\<forall>ctx :: 'ctx. useAuth None \<noteq> Inr ctx)"
  by (simp add: useAuth_def)

subsection \<open>Status check on mount\<close>

text \<open>
  C6. On mount the provider calls the status endpoint exactly once. When the call has
  settled, the state is authenticated with the returned user precisely when the response
  has \<open>authenticated = true\<close> and a non-null user; in every other case, a failed fetch and
  an unreadable body included, it is unauthenticated with a null user. \<open>loading\<close> is false
  afterwards.
\<close>

theorem mount_checks_status_once:
  "fetched (checkAuth_settle r (AuthProvider_mount href)) =
     [\<lparr>url = ''/api/v1/auth/check'', http_method = GET, credentials = ''include''\<rparr>]
   \<and> (\<forall>ok data u. r = Response ok (Some data) \<and> authenticated data \<and> check_user data = Some u
        \<longrightarrow> isAuthenticated (authState (checkAuth_settle r (AuthProvider_mount href)))
            \<and> user (authState (checkAuth_settle r (AuthProvider_mount href))) = Some u)
   \<and> ((\<nexists>ok data u. r = Response ok (Some data) \<and> authenticated data \<and> check_user data = Some u)
        \<longrightarrow> \<not> isAuthenticated (authState (checkAuth_settle r (AuthProvider_mount href)))
            \<and> user (authState (checkAuth_settle r (AuthProvider_mount href))) = None)
   \<and> \<not> loading (authState (checkAuth_settle r (AuthProvider_mount href)))"
  by (auto simp add: checkAuth_settle_def AuthProvider_mount_def checkAuth_begin_def
      setAuthState_def fetch_def split: fetch_result.splits option.splits)

theorem mount_checks_status_once_witness:
  "isAuthenticated (authState (checkAuth_settle
      (Response True (Some \<lparr>authenticated = True, check_user = Some anna\<rparr>))
      (AuthProvider_mount ''/'')))
   \<and> user (authState (checkAuth_settle
      (Response True (Some \<lparr>authenticated = True, check_user = Some anna\<rparr>))
      (AuthProvider_mount ''/''))) = Some anna
   \<and> \<not> isAuthenticated (authState (checkAuth_settle Rejected (AuthProvider_mount ''/'')))
   \<and> user (authState (checkAuth_settle Rejected (AuthProvider_mount ''/''))) = None
   \<and> \<not> loading (authState (checkAuth_settle Rejected (AuthProvider_mount ''/'')))"
  using
    mount_checks_status_once
      [of "Response True (Some \<lparr>authenticated = True, check_user = Some anna\<rparr>)" "''/''"]
    mount_checks_status_once [of Rejected "''/''"]
  by (simp add: ex_bool_eq all_bool_eq)

subsection \<open>Login and logout\<close>

text \<open>
  C7. A call of \<^verbatim>\<open>login\<close> leaves the auth state as it is (and issues no fetch); it sets the
  browser location to the login endpoint, with a \<^verbatim>\<open>redirect_url\<close> query parameter exactly
  when a redirect target is given. A redirect target is a non-empty string: \<^verbatim>\<open>login()\<close>
  and \<^verbatim>\<open>login('')\<close> give none.
\<close>

theorem login_navigates_without_state_change:
  "authState (login redirectUrl c) = authState c
   \<and> fetched (login redirectUrl c) = fetched c
   \<and> location_href (login redirectUrl c) =
       (case redirectUrl of
          None \<Rightarrow> ''/api/v1/auth/login''
        | Some u \<Rightarrow> if u = [] then ''/api/v1/auth/login''
                    else ''/api/v1/auth/login?redirect_url='' @ form_urlencode u)"
  by (simp add: login_def set_location_href_def Let_def split: option.splits)

text \<open>
  C4. Every call of \<^verbatim>\<open>logout\<close>, whether the call of the logout endpoint resolves or
  rejects, resets the auth state to unauthenticated (no user, no token, no error) and
  sets the browser location to the home page.
\<close>

theorem logout_always_resets_and_navigates_home:
  "authState (logout r c) =
     \<lparr>isAuthenticated = False, user = None, token = Null, loading = False, error = None\<rparr>
   \<and> location_href (logout r c) = ''/''"
  by (cases r) (simp_all add: logout_def logout_settle_def logout_begin_def
      setAuthState_def set_location_href_def fetch_def)

subsection \<open>Token refresh\<close>

text \<open>
  C5. When the call of the token endpoint rejects, or returns a response that is not OK,
  or a body that cannot be read, or a body without \<open>success = true\<close> and a user, the auth
  state after \<^verbatim>\<open>refreshToken\<close> is unauthenticated: \<open>isAuthenticated\<close> false, user null,
  token null (with the error \<^verbatim>\<open>Session expired\<close>).
\<close>

theorem refreshToken_failure_degrades:
  assumes "r = Rejected \<or> (\<exists>body. r = Response False body) \<or> r = Response True None
           \<or> (\<exists>data. r = Response True (Some data) \<and> \<not> (success data \<and> token_user data \<noteq> None))"
  shows "authState (refreshToken r c) =
           \<lparr>isAuthenticated = False, user = None, token = Null, loading = False,
            error = Some ''Session expired''\<rparr>"
  using assms
  by (auto simp add: refreshToken_def refreshToken_settle_def refreshToken_begin_def
      setAuthState_def fetch_def)

theorem refreshToken_failure_degrades_witness:
  "authState (refreshToken
      (Response True (Some \<lparr>success = False, token_user = None, token_token = Undefined\<rparr>))
      (page (signed_in (Some anna)))) =
     \<lparr>isAuthenticated = False, user = None, token = Null, loading = False,
      error = Some ''Session expired''\<rparr>"
  using refreshToken_failure_degrades
    [of "Response True (Some \<lparr>success = False, token_user = None, token_token = Undefined\<rparr>)"
        "page (signed_in (Some anna))"]
  by simp

text \<open>
  C9. When the token endpoint answers OK with \<open>success = true\<close> and a user,
  \<^verbatim>\<open>refreshToken\<close> updates only \<open>user\<close>, \<open>token\<close> and \<open>error\<close>; \<open>isAuthenticated\<close> and \<open>loading\<close>
  keep their values. In particular a successful refresh of an unauthenticated state
  leaves it unauthenticated.
\<close>

theorem refreshToken_success_frame:
  assumes "success data" and "token_user data = Some u"
  shows "authState (refreshToken (Response True (Some data)) c) =
           (authState c)\<lparr>user := Some u, token := token_token data, error := None\<rparr>
         \<and> isAuthenticated (authState (refreshToken (Response True (Some data)) c)) =
             isAuthenticated (authState c)
         \<and> loading (authState (refreshToken (Response True (Some data)) c)) =
             loading (authState c)"
  using assms
  by (simp add: refreshToken_def refreshToken_settle_def refreshToken_begin_def
      setAuthState_def fetch_def)

theorem refreshToken_success_frame_witness:
  "success \<lparr>success = True, token_user = Some anna, token_token = Undefined\<rparr>
   \<and> \<not> isAuthenticated (authState (page signed_out))
   \<and> authState (refreshToken
        (Response True (Some \<lparr>success = True, token_user = Some anna, token_token = Undefined\<rparr>))
        (page signed_out)) =
       \<lparr>isAuthenticated = False, user = Some anna, token = Undefined, loading = False,
        error = None\<rparr>"
  using refreshToken_success_frame
    [of "\<lparr>success = True, token_user = Some anna, token_token = Undefined\<rparr>" anna
        "page signed_out"]
  by (simp add: page_def signed_out_def)

subsection \<open>Unmounting while a call is pending\<close>

lemma settle_react_while_mounted:
  assumes "mounted c"
  shows "checkAuth_settle_react r c = checkAuth_settle r c"
    and "refreshToken_settle_react r' c = refreshToken_settle r' c"
  using assms
  by (auto simp add: checkAuth_settle_react_def checkAuth_settle_def
      refreshToken_settle_react_def refreshToken_settle_def react_setAuthState_def
      split: fetch_result.splits option.splits)



subsection \<open>What the client holds\<close>

lemma token_step:
  "token (authState (step e c)) = token (authState c) \<or> token (authState (step e c)) = Null
   \<or> stored_token e = Some (token (authState (step e c)))"
  by (cases e)
     (auto simp add: checkAuth_begin_def checkAuth_settle_def login_def logout_begin_def
        logout_settle_def refreshToken_begin_def refreshToken_settle_def setAuthState_def
        fetch_def set_location_href_def Let_def split: fetch_result.splits option.splits)

lemma user_step:
  "user (authState (step e c)) = user (authState c) \<or> user (authState (step e c)) = None
   \<or> user (authState (step e c)) = received_user e"
  by (cases e)
     (auto simp add: checkAuth_begin_def checkAuth_settle_def login_def logout_begin_def
        logout_settle_def refreshToken_begin_def refreshToken_settle_def setAuthState_def
        fetch_def set_location_href_def Let_def split: fetch_result.splits option.splits)

lemma token_run:
  "token (authState (run es c))
     \<in> set (token (authState c) # Null # List.map_filter stored_token es)"
proof (induction es arbitrary: c)
  case Nil
  show ?case by simp
next
  case (Cons e es)
  from Cons.IH [of "step e c"] token_step [of e c]
  show ?case by (auto simp add: List.map_filter_simps split: option.splits)
qed

lemma user_run:
  "user (authState (run es c)) \<in> set (user (authState c) # None # map received_user es)"
proof (induction es arbitrary: c)
  case Nil
  show ?case by simp
next
  case (Cons e es)
  from Cons.IH [of "step e c"] user_step [of e c]
  show ?case by auto
qed

text \<open>
  C2, as stated: in every state reachable through the four operations the token field is
  null. This fails after a refresh that succeeds with a token in its body: the token is
  copied into the client state.
\<close>

theorem token_held_after_refresh_counterexample:
  "token (authState (run
     [CheckAuth_resolved (Response True (Some \<lparr>authenticated = True, check_user = Some anna\<rparr>)),
      RefreshToken_called,
      RefreshToken_resolved (Response True (Some
        \<lparr>success = True, token_user = Some anna, token_token = Str ''eyJhbGciOiJSUzI1NiJ9''\<rparr>))]
     (AuthProvider_mount ''/''))) = Str ''eyJhbGciOiJSUzI1NiJ9''"
  by (simp add: checkAuth_settle_def refreshToken_begin_def refreshToken_settle_def
      setAuthState_def fetch_def)

text \<open>
  C2, amended: in every state reachable from mounting through \<^verbatim>\<open>checkAuth\<close>, \<^verbatim>\<open>login\<close>,
  \<^verbatim>\<open>logout\<close> and \<^verbatim>\<open>refreshToken\<close>, in any interleaving, the user is null or a user object
  taken unchanged from a status or refresh response (an \<open>EIAMUser\<close>, which has the
  principal fields only), and the token field is null or the \<^verbatim>\<open>token\<close> field of the body of
  a refresh that succeeded; it is null as long as no refresh has succeeded.
\<close>

theorem reachable_token_and_user:
  "token (authState (run es (AuthProvider_mount href)))
     \<in> set (Null # List.map_filter stored_token es)
   \<and> user (authState (run es (AuthProvider_mount href))) \<in> set (None # map received_user es)"
  using token_run [of es "AuthProvider_mount href"] user_run [of es "AuthProvider_mount href"]
  by (simp add: AuthProvider_mount_def checkAuth_begin_def setAuthState_def fetch_def
      initial_authState_def)

end
